theory Spec2Isabelle
  imports Complex_Main
begin

section \<open>Bounded queues\<close>

text \<open>
  Both pipelines hand their items over through Python's \<^verbatim>\<open>queue.Queue(maxsize)\<close>.
  The queue is the list of its items, oldest first. \<^verbatim>\<open>Queue.full()\<close> is
  \<^verbatim>\<open>0 < maxsize <= qsize()\<close>, so a queue whose \<^verbatim>\<open>maxsize\<close> is not positive never
  fills up. \<^verbatim>\<open>put_nowait\<close> raises \<^verbatim>\<open>queue.Full\<close> and \<^verbatim>\<open>get_nowait\<close> raises
  \<^verbatim>\<open>queue.Empty\<close>; neither of them ever waits.
\<close>

datatype queue_error = Full | Empty

definition queue_full :: "int \<Rightarrow> 'a list \<Rightarrow> bool" where
  "queue_full maxsize items \<longleftrightarrow> 0 < maxsize \<and> maxsize \<le> int (length items)"

definition put_nowait :: "int \<Rightarrow> 'a list \<Rightarrow> 'a \<Rightarrow> queue_error + 'a list" where
  "put_nowait maxsize items x =
     (if queue_full maxsize items then Inl Full else Inr (items @ [x]))"

definition get_nowait :: "'a list \<Rightarrow> queue_error + ('a \<times> 'a list)" where
  "get_nowait items = (case items of [] \<Rightarrow> Inl Empty | x # xs \<Rightarrow> Inr (x, xs))"

section \<open>The video pipeline of \<^verbatim>\<open>ScreenRecorder\<close>\<close>

text \<open>
  A queued frame is the dictionary built by the capture thread. The pixel buffer is
  left out; the timestamp (seconds since the start of the recording) tells two frames
  with the same number apart. An item of the frame queue is a frame or the sentinel
  \<^verbatim>\<open>None\<close> that \<^verbatim>\<open>_finalize_recording\<close> enqueues.
\<close>

record frame_data =
  timestamp :: real
  frame_number :: nat
  is_key_frame :: bool

text \<open>
  The adaptive state of the write thread: its local counter \<^verbatim>\<open>frames_behind\<close> and the
  shared flag \<^verbatim>\<open>_emergency_mode\<close> (the degraded mode).
\<close>

record pipeline_state =
  frames_behind :: int
  emergency_mode :: bool

record recorder =
  frame_queue :: "frame_data option list"
  frame_count :: nat
  dropped_frames :: nat
  controller :: pipeline_state
  batch_write_buffer :: "frame_data list"
  writer_open :: bool
  video_frames :: "frame_data list"

text \<open>
  The state of a fresh \<^verbatim>\<open>ScreenRecorder\<close> once \<^verbatim>\<open>_setup_video_writer\<close> has opened
  the sink; \<open>video_frames\<close> is what has been handed to \<^verbatim>\<open>_writer.write\<close>, in order.
\<close>

definition initial_recorder :: recorder where
  "initial_recorder =
     \<lparr>frame_queue = [], frame_count = 0, dropped_frames = 0,
      controller = \<lparr>frames_behind = 0, emergency_mode = False\<rparr>,
      batch_write_buffer = [], writer_open = True, video_frames = []\<rparr>"

subsection \<open>Capture thread: the push and its overflow handler\<close>

text \<open>
  The scan of the overflow handler: it takes items from the front while the queue is
  not empty and fewer than five have been set aside. A frame that is not a key frame
  ends the scan and is not kept. The sentinel has no \<^verbatim>\<open>get\<close> method, so it raises
  inside the handler's \<^verbatim>\<open>try\<close>. The result is the queue left behind, the key frames
  set aside, and how the scan ended.
\<close>

datatype scan_result = Found | NotFound | Raised

fun scan_frames ::
  "frame_data option list \<Rightarrow> frame_data option list \<Rightarrow>
   frame_data option list \<times> frame_data option list \<times> scan_result" where
  "scan_frames [] temp_frames = ([], temp_frames, NotFound)"
| "scan_frames (x # xs) temp_frames =
     (if length temp_frames < 5 then
        (case x of
           None \<Rightarrow> (xs, temp_frames, Raised)
         | Some old_frame \<Rightarrow>
             if \<not> is_key_frame old_frame then (xs, temp_frames, Found)
             else scan_frames xs (temp_frames @ [x]))
      else (x # xs, temp_frames, NotFound))"

text \<open>
  Putting the key frames back: each goes to the tail of the queue with
  \<^verbatim>\<open>put_nowait\<close>; the first \<^verbatim>\<open>queue.Full\<close> ends the loop and leaves the queue as it is
  then. The flag says whether every put succeeded.
\<close>

fun put_all :: "int \<Rightarrow> 'a list \<Rightarrow> 'a list \<Rightarrow> 'a list \<times> bool" where
  "put_all maxsize items [] = (items, True)"
| "put_all maxsize items (t # ts) =
     (case put_nowait maxsize items t of
        Inl _ \<Rightarrow> (items, False)
      | Inr items' \<Rightarrow> put_all maxsize items' ts)"

text \<open>
  The \<^verbatim>\<open>except queue.Full\<close> branch. Every path through it, the bare \<^verbatim>\<open>except\<close>
  included, adds one to \<^verbatim>\<open>_dropped_frames\<close>, and none touches \<^verbatim>\<open>_frame_count\<close>.
\<close>

definition handle_overflow :: "int \<Rightarrow> frame_data \<Rightarrow> recorder \<Rightarrow> recorder" where
  "handle_overflow maxsize frame st =
     (case scan_frames (frame_queue st) [] of
        (q1, temp_frames, Raised) \<Rightarrow>
          st\<lparr>frame_queue := q1, dropped_frames := dropped_frames st + 1\<rparr>
      | (q1, temp_frames, _) \<Rightarrow>
          (case put_all maxsize q1 temp_frames of
             (q2, False) \<Rightarrow> st\<lparr>frame_queue := q2, dropped_frames := dropped_frames st + 1\<rparr>
           | (q2, True) \<Rightarrow>
               (case put_nowait maxsize q2 (Some frame) of
                  Inl _ \<Rightarrow> st\<lparr>frame_queue := q2, dropped_frames := dropped_frames st + 1\<rparr>
                | Inr q3 \<Rightarrow> st\<lparr>frame_queue := q3, dropped_frames := dropped_frames st + 1\<rparr>)))"

text \<open>
  One captured frame, at \<open>current_time\<close>: the frame queue holds
  \<^verbatim>\<open>cfg.buffer_size * 2\<close> items at most.
\<close>

definition capture_frame :: "int \<Rightarrow> real \<Rightarrow> recorder \<Rightarrow> recorder" where
  "capture_frame buffer_size current_time st =
     (let maxsize = buffer_size * 2;
          frame = \<lparr>timestamp = current_time, frame_number = frame_count st,
                   is_key_frame = (frame_count st mod 30 = 0)\<rparr>
      in case put_nowait maxsize (frame_queue st) (Some frame) of
           Inr q \<Rightarrow> st\<lparr>frame_queue := q, frame_count := frame_count st + 1\<rparr>
         | Inl _ \<Rightarrow> handle_overflow maxsize frame st)"

subsection \<open>Write thread\<close>

text \<open>
  The adaptive control on one observed queue size. The source compares with
  \<^verbatim>\<open>cfg.buffer_size * 0.75\<close>; three quarters of an integer of any size a buffer can
  have is exact in binary floating point, and Python compares an integer with a float
  exactly, so the comparison is the integer one below.
\<close>

definition observe :: "int \<Rightarrow> nat \<Rightarrow> pipeline_state \<Rightarrow> pipeline_state" where
  "observe buffer_size queue_size c =
     (if 4 * int queue_size > 3 * buffer_size then
        (let fb = frames_behind c + 1
         in if fb > 3 \<and> \<not> emergency_mode c
            then \<lparr>frames_behind = fb, emergency_mode = True\<rparr>
            else c\<lparr>frames_behind := fb\<rparr>)
      else
        (let fb = max 0 (frames_behind c - 1)
         in if fb = 0 \<and> emergency_mode c
            then \<lparr>frames_behind = fb, emergency_mode = False\<rparr>
            else c\<lparr>frames_behind := fb\<rparr>))"

text \<open>Writing the batch out: every item goes to the sink if the writer is still there.\<close>

definition flush_batch :: "recorder \<Rightarrow> recorder" where
  "flush_batch st =
     st\<lparr>video_frames :=
          (if writer_open st then video_frames st @ batch_write_buffer st
           else video_frames st),
        batch_write_buffer := []\<rparr>"

text \<open>
  One iteration of the write loop. An empty queue is the \<^verbatim>\<open>queue.Empty\<close> of the timed
  \<^verbatim>\<open>get\<close>: the batch is flushed and the loop goes on. The flag is False when the
  sentinel ends the loop.
\<close>

definition write_iteration :: "int \<Rightarrow> recorder \<Rightarrow> recorder \<times> bool" where
  "write_iteration buffer_size st =
     (case frame_queue st of
        [] \<Rightarrow> (flush_batch st, True)
      | None # q \<Rightarrow> (st\<lparr>frame_queue := q\<rparr>, False)
      | Some frame # q \<Rightarrow>
          (let c = observe buffer_size (length q) (controller st);
               st' = st\<lparr>frame_queue := q, controller := c,
                        batch_write_buffer := batch_write_buffer st @ [frame]\<rparr>
           in (if 5 \<le> length (batch_write_buffer st') \<or> emergency_mode c
               then flush_batch st' else st', True)))"

text \<open>
  The write thread after the stop event is set and the capture thread has ended: it
  goes on until the queue is empty or the sentinel arrives, then does its final flush.
\<close>

function drain :: "int \<Rightarrow> recorder \<Rightarrow> recorder" where
  "drain buffer_size st =
     (if frame_queue st = [] then flush_batch st
      else (case write_iteration buffer_size st of
              (st', False) \<Rightarrow> flush_batch st'
            | (st', True) \<Rightarrow> drain buffer_size st'))"
  by pat_completeness auto
termination
proof (relation "measure (\<lambda>(b, st). length (frame_queue st))")
  show "wf (measure (\<lambda>(b, st). length (frame_queue st)))"
    by simp
next
  fix buffer_size :: int and st x :: recorder and y :: bool
  assume "frame_queue st \<noteq> []" and "(x, y) = write_iteration buffer_size st"
  then have "length (frame_queue x) < length (frame_queue st)"
    by (auto simp: write_iteration_def flush_batch_def Let_def
          split: list.splits option.splits if_splits)
  then show "((buffer_size, x), (buffer_size, st)) \<in> measure (\<lambda>(b, st). length (frame_queue st))"
    by simp
qed

subsection \<open>Sessions\<close>

text \<open>
  The monitor loop of \<^verbatim>\<open>_recording_loop\<close> is the second writer of \<^verbatim>\<open>_emergency_mode\<close>.
  At each statistics update (every five seconds) it sets the flag when it reads more
  than ten dropped frames; \<^verbatim>\<open>_adaptive_quality\<close> is set to True in the constructor and
  never changed. It does not touch the write thread's counter.
\<close>

definition monitor_update :: "nat \<Rightarrow> pipeline_state \<Rightarrow> pipeline_state" where
  "monitor_update dropped c =
     (if 10 < dropped then
        (if \<not> emergency_mode c then c\<lparr>emergency_mode := True\<rparr> else c)
      else c)"

text \<open>
  A session is an interleaving of the three threads' steps: a frame captured at a given
  time, one iteration of the write loop (which has not met the sentinel), or one
  statistics update of the monitor loop.
\<close>

datatype event = Capture real | Write | Monitor

fun step :: "int \<Rightarrow> event \<Rightarrow> recorder \<Rightarrow> recorder" where
  "step buffer_size (Capture t) st = capture_frame buffer_size t st"
| "step buffer_size Write st = fst (write_iteration buffer_size st)"
| "step buffer_size Monitor st =
     st\<lparr>controller := monitor_update (dropped_frames st) (controller st)\<rparr>"

definition run :: "int \<Rightarrow> event list \<Rightarrow> recorder \<Rightarrow> recorder" where
  "run buffer_size evs st = fold (step buffer_size) evs st"

definition session :: "int \<Rightarrow> event list \<Rightarrow> recorder" where
  "session buffer_size evs = drain buffer_size (run buffer_size evs initial_recorder)"

text \<open>
  A session with a buffer size of 3 (a frame queue of six) in which the writer falls
  behind at frame count 30: six frames fill the queue, the writer then takes one frame
  before each of the next 24 captures, and then takes none during six more captures.
\<close>

definition stalled_writer_events :: "event list" where
  "stalled_writer_events =
     [Capture 1, Capture 2, Capture 3, Capture 4, Capture 5, Capture 6, Write,
      Capture 7, Write, Capture 8, Write, Capture 9, Write, Capture 10, Write,
      Capture 11, Write, Capture 12, Write, Capture 13, Write, Capture 14, Write,
      Capture 15, Write, Capture 16, Write, Capture 17, Write, Capture 18, Write,
      Capture 19, Write, Capture 20, Write, Capture 21, Write, Capture 22, Write,
      Capture 23, Write, Capture 24, Write, Capture 25, Write, Capture 26, Write,
      Capture 27, Write, Capture 28, Write, Capture 29, Write, Capture 30, Capture 31,
      Capture 32, Capture 33, Capture 34, Capture 35, Capture 36]"

definition key_frame :: "nat \<Rightarrow> real \<Rightarrow> frame_data option" where
  "key_frame n t = Some \<lparr>timestamp = t, frame_number = n, is_key_frame = True\<rparr>"

subsection \<open>The adaptive control and its two writers\<close>

text \<open>
  What changes the adaptive state: an observation, the queue size the write thread
  reads after a dequeue, or a statistics update of the monitor loop, with the number
  of dropped frames it reads. An observation is above the high-water mark when it
  exceeds three quarters of \<^verbatim>\<open>cfg.buffer_size\<close>.
\<close>

datatype control_event = Observation nat | MonitorTick nat

fun control_step :: "int \<Rightarrow> control_event \<Rightarrow> pipeline_state \<Rightarrow> pipeline_state" where
  "control_step buffer_size (Observation queue_size) c = observe buffer_size queue_size c"
| "control_step buffer_size (MonitorTick dropped) c = monitor_update dropped c"

definition control_run :: "int \<Rightarrow> control_event list \<Rightarrow> pipeline_state \<Rightarrow> pipeline_state" where
  "control_run buffer_size es c = fold (control_step buffer_size) es c"

definition above :: "int \<Rightarrow> nat \<Rightarrow> bool" where
  "above buffer_size queue_size \<longleftrightarrow> 4 * int queue_size > 3 * buffer_size"

text \<open>
  Counting a sequence of events: the observations above the mark, the observations at
  or below it, and whether every statistics update in it reads at most ten dropped
  frames (such an update changes nothing).
\<close>

fun is_above :: "int \<Rightarrow> control_event \<Rightarrow> bool" where
  "is_above buffer_size (Observation queue_size) = above buffer_size queue_size"
| "is_above buffer_size (MonitorTick dropped) = False"

fun is_below :: "int \<Rightarrow> control_event \<Rightarrow> bool" where
  "is_below buffer_size (Observation queue_size) = (\<not> above buffer_size queue_size)"
| "is_below buffer_size (MonitorTick dropped) = False"

fun is_quiet :: "control_event \<Rightarrow> bool" where
  "is_quiet (Observation queue_size) = True"
| "is_quiet (MonitorTick dropped) = (dropped \<le> 10)"

definition count_above :: "int \<Rightarrow> control_event list \<Rightarrow> nat" where
  "count_above buffer_size es = length (filter (is_above buffer_size) es)"

definition count_below :: "int \<Rightarrow> control_event list \<Rightarrow> nat" where
  "count_below buffer_size es = length (filter (is_below buffer_size) es)"

definition monitor_quiet :: "control_event list \<Rightarrow> bool" where
  "monitor_quiet es = list_all is_quiet es"

text \<open>
  The states of the control that the two writers can reach: the counter is never
  negative, and in the normal mode it is at most three.
\<close>

definition controller_ok :: "pipeline_state \<Rightarrow> bool" where
  "controller_ok c \<longleftrightarrow> 0 \<le> frames_behind c \<and> (emergency_mode c \<or> frames_behind c \<le> 3)"

section \<open>The audio callback of \<^verbatim>\<open>AudioRecorder\<close>\<close>

text \<open>
  \<^verbatim>\<open>_audio_callback\<close> puts a copy of the block on the queue \<^verbatim>\<open>_q\<close>, created with
  \<^verbatim>\<open>maxsize=64\<close>, and catches \<^verbatim>\<open>queue.Full\<close> only. The result is the queue after the
  call, or the exception that leaves the callback.
\<close>

definition audio_callback :: "'a list \<Rightarrow> 'a \<Rightarrow> queue_error + 'a list" where
  "audio_callback q indata =
     (case put_nowait 64 q indata of
        Inr q' \<Rightarrow> Inr q'
      | Inl Full \<Rightarrow> Inr q
      | Inl e \<Rightarrow> Inl e)"

section \<open>Status reporting\<close>

text \<open>
  What a call of the user's status callback can raise: an instance of \<^verbatim>\<open>Exception\<close>,
  or one of the exceptions outside that class (\<^verbatim>\<open>KeyboardInterrupt\<close>,
  \<^verbatim>\<open>SystemExit\<close>, \<^verbatim>\<open>GeneratorExit\<close>), which \<^verbatim>\<open>except Exception\<close> lets through.
\<close>

datatype raised = ExceptionClass string | BaseExceptionOnly string

definition emit_status :: "(string \<Rightarrow> raised + unit) \<Rightarrow> string \<Rightarrow> raised + unit" where
  "emit_status status_callback msg =
     (case status_callback msg of
        Inr u \<Rightarrow> Inr ()
      | Inl (ExceptionClass e) \<Rightarrow> Inr ()
      | Inl (BaseExceptionOnly e) \<Rightarrow> Inl (BaseExceptionOnly e))"

text \<open>A status callback during which the user interrupts the program.\<close>

definition interrupted_callback :: "string \<Rightarrow> raised + unit" where
  "interrupted_callback msg = Inl (BaseExceptionOnly ''KeyboardInterrupt'')"

section \<open>Probing for cameras\<close>











section \<open>Merging audio and video\<close>

text \<open>
  The file system as the merge sees it: the size in bytes of each file that exists.
\<close>

type_synonym path = string
type_synonym file_system = "path \<rightharpoonup> nat"

text \<open>
  What \<^verbatim>\<open>subprocess.run(cmd, timeout=300)\<close> can do: return a completed process
  (its return code and standard error), raise \<^verbatim>\<open>TimeoutExpired\<close>, or raise anything
  else.
\<close>

datatype proc_outcome = Completed int string | TimeoutExpired | OtherException string

text \<open>
  The collaborators of the merge: the results of \<^verbatim>\<open>find_ffmpeg_path\<close> and
  \<^verbatim>\<open>test_ffmpeg\<close>, the outcome of the merge command and what it did to the files, and
  where \<^verbatim>\<open>os.remove\<close> and \<^verbatim>\<open>shutil.copy2\<close> raise.
\<close>

record environment =
  find_ffmpeg_path :: "path option"
  test_ffmpeg :: "bool \<times> string"
  ffmpeg_run :: proc_outcome
  ffmpeg_effect :: "file_system \<Rightarrow> file_system"
  remove_raises :: "path \<Rightarrow> bool"
  copy_raises :: bool

text \<open>
  The fields of the recorder that the merge reads: the \<^verbatim>\<open>wav_path\<close> of the audio
  recorder when there is one, the temporary video file, and the output path.
\<close>

record mux_input =
  audio_recorder :: "path option"
  video_tmp_path :: "path option"
  output_path :: path

text \<open>
  The exceptions raised inside the \<^verbatim>\<open>try\<close> around the merge command, and the
  \<^verbatim>\<open>RuntimeError\<close>s that leave \<^verbatim>\<open>_mux_audio_video\<close>. Each carries the values its
  message is formatted from.
\<close>

datatype run_exception = FFmpegFailed int string | OutputNotCreated | Other string

datatype runtime_error =
    NotAvailable
  | AudioFileNotFound path
  | VideoFileNotFound path
  | AudioFileTooSmall nat
  | VideoFileTooSmall nat
  | FFmpegNotFound
  | FFmpegTestFailed string
  | FFmpegTimedOut
  | FFmpegExecutionFailed run_exception
  | SegmentMergeFailed string

datatype status =
    Muxing nat nat
  | RunningFFmpeg
  | OutputSmallerThanExpected nat
  | MuxingSuccessful nat
  | CleanedUp path
  | CouldNotRemove path
  | RecordingSavedWithAudio
  | MergeFailedAudioSavedSeparately runtime_error path
  | MergeFailedAudioAvailableAt runtime_error path
  | VideoSavedAudioMergeFailed runtime_error

record mux_outcome =
  mux_result :: "runtime_error + unit"
  files :: file_system
  messages :: "status list"
  invoked :: bool

text \<open>
  The \<^verbatim>\<open>finally\<close> block of \<^verbatim>\<open>_mux_audio_video\<close>: each temporary file that exists is
  removed; a removal that raises is reported and the file stays.
\<close>

fun cleanup_temp ::
  "(path \<Rightarrow> bool) \<Rightarrow> path list \<Rightarrow> file_system \<Rightarrow> status list \<Rightarrow> file_system \<times> status list" where
  "cleanup_temp raises [] fs msgs = (fs, msgs)"
| "cleanup_temp raises (temp_path # rest) fs msgs =
     (if temp_path \<noteq> [] \<and> fs temp_path \<noteq> None then
        (if raises temp_path
         then cleanup_temp raises rest fs (msgs @ [CouldNotRemove temp_path])
         else cleanup_temp raises rest (fs(temp_path := None)) (msgs @ [CleanedUp temp_path]))
      else cleanup_temp raises rest fs msgs)"

text \<open>
  The body of the \<^verbatim>\<open>try\<close>: the merge command runs, then its return code and its
  output file are checked. The \<^verbatim>\<open>RuntimeError\<close>s raised there are caught by
  \<^verbatim>\<open>except Exception\<close> and raised again, wrapped. The comparison with
  \<^verbatim>\<open>video_size * 0.8\<close> is made on exact numbers.
\<close>

definition run_ffmpeg ::
  "environment \<Rightarrow> path \<Rightarrow> nat \<Rightarrow> file_system \<Rightarrow> (runtime_error + unit) \<times> file_system \<times> status list" where
  "run_ffmpeg env out video_size fs =
     (let fs' = ffmpeg_effect env fs
      in case ffmpeg_run env of
           TimeoutExpired \<Rightarrow> (Inl FFmpegTimedOut, fs', [])
         | OtherException e \<Rightarrow> (Inl (FFmpegExecutionFailed (Other e)), fs', [])
         | Completed returncode stderr \<Rightarrow>
             if returncode \<noteq> 0
             then (Inl (FFmpegExecutionFailed (FFmpegFailed returncode stderr)), fs', [])
             else (case fs' out of
                     None \<Rightarrow> (Inl (FFmpegExecutionFailed OutputNotCreated), fs', [])
                   | Some output_size \<Rightarrow>
                       (Inr (), fs',
                        [if 5 * output_size < 4 * video_size
                         then OutputSmallerThanExpected (output_size div 1024)
                         else MuxingSuccessful (output_size div 1024)])))"

definition mux_audio_video :: "environment \<Rightarrow> mux_input \<Rightarrow> file_system \<Rightarrow> mux_outcome" where
  "mux_audio_video env r fs =
     (case (audio_recorder r, video_tmp_path r) of
        (None, _) \<Rightarrow> \<lparr>mux_result = Inl NotAvailable, files = fs, messages = [], invoked = False\<rparr>
      | (Some audio_path, None) \<Rightarrow>
          \<lparr>mux_result = Inl NotAvailable, files = fs, messages = [], invoked = False\<rparr>
      | (Some audio_path, Some video_path) \<Rightarrow>
          if video_path = [] then
            \<lparr>mux_result = Inl NotAvailable, files = fs, messages = [], invoked = False\<rparr>
          else (case (fs audio_path, fs video_path) of
            (None, _) \<Rightarrow>
              \<lparr>mux_result = Inl (AudioFileNotFound audio_path), files = fs, messages = [],
               invoked = False\<rparr>
          | (Some audio_size, None) \<Rightarrow>
              \<lparr>mux_result = Inl (VideoFileNotFound video_path), files = fs, messages = [],
               invoked = False\<rparr>
          | (Some audio_size, Some video_size) \<Rightarrow>
              if audio_size < 1024 then
                \<lparr>mux_result = Inl (AudioFileTooSmall audio_size), files = fs, messages = [],
                 invoked = False\<rparr>
              else if video_size < 1024 then
                \<lparr>mux_result = Inl (VideoFileTooSmall video_size), files = fs, messages = [],
                 invoked = False\<rparr>
              else
                (let m1 = [Muxing (video_size div 1024) (audio_size div 1024)]
                 in case find_ffmpeg_path env of
                      None \<Rightarrow>
                        \<lparr>mux_result = Inl FFmpegNotFound, files = fs, messages = m1,
                         invoked = False\<rparr>
                    | Some ffmpeg \<Rightarrow>
                        if ffmpeg = [] then
                          \<lparr>mux_result = Inl FFmpegNotFound, files = fs, messages = m1,
                           invoked = False\<rparr>
                        else if \<not> fst (test_ffmpeg env) then
                          \<lparr>mux_result = Inl (FFmpegTestFailed (snd (test_ffmpeg env))),
                           files = fs, messages = m1, invoked = False\<rparr>
                        else
                          (case run_ffmpeg env (output_path r) video_size fs of
                             (res, fs1, m2) \<Rightarrow>
                               (case cleanup_temp (remove_raises env) [video_path, audio_path]
                                       fs1 (m1 @ [RunningFFmpeg] @ m2) of
                                  (fs2, m3) \<Rightarrow>
                                    \<lparr>mux_result = res, files = fs2, messages = m3,
                                     invoked = True\<rparr>)))))"





text \<open>
  The branch of \<^verbatim>\<open>_finalize_recording\<close> that merges audio and video (audio was
  recorded and is not to be saved separately). \<open>segments\<close> is what \<^verbatim>\<open>_merge_segments\<close>
  does when more than one segment was recorded, and \<open>base_path\<close> is
  \<^verbatim>\<open>os.path.splitext(cfg.output_path)[0]\<close>. The result is the file system and the
  status messages emitted.
\<close>

definition finalize_recording ::
  "environment \<Rightarrow> (file_system \<Rightarrow> (runtime_error + unit) \<times> file_system) option \<Rightarrow>
   mux_input \<Rightarrow> path \<Rightarrow> file_system \<Rightarrow> file_system \<times> status list" where
  "finalize_recording env segments r base_path fs =
     (let audio_path = (case audio_recorder r of None \<Rightarrow> [] | Some p \<Rightarrow> p);
          (seg_result, fs1) = (case segments of None \<Rightarrow> (Inr (), fs) | Some merge \<Rightarrow> merge fs);
          (result, fs2, msgs) =
            (case seg_result of
               Inl ex \<Rightarrow> (Inl ex, fs1, [])
             | Inr _ \<Rightarrow>
                 (let m = mux_audio_video env r fs1
                  in (mux_result m, files m, messages m)))
      in case result of
           Inr _ \<Rightarrow> (fs2, msgs @ [RecordingSavedWithAudio])
         | Inl ex \<Rightarrow>
             if audio_path \<noteq> [] \<and> fs2 audio_path \<noteq> None then
               (let final_audio_path = base_path @ ''_audio.wav''
                in if copy_raises env
                   then (fs2, msgs @ [MergeFailedAudioAvailableAt ex audio_path])
                   else (fs2(final_audio_path := fs2 audio_path),
                         msgs @ [MergeFailedAudioSavedSeparately ex final_audio_path]))
             else (fs2, msgs @ [VideoSavedAudioMergeFailed ex]))"

subsection \<open>A recording session at the moment of the merge\<close>

text \<open>
  A recorder with audio, writing to \<^verbatim>\<open>rec.mp4\<close>: the temporary video file and the
  recorded audio file with the given sizes, the merge tool installed and working, and
  a file system on which removing and copying succeed. The outcome of the merge
  command and what it leaves on the file system are the parameters.
\<close>

definition example_env :: "proc_outcome \<Rightarrow> (file_system \<Rightarrow> file_system) \<Rightarrow> environment" where
  "example_env outcome effect =
     \<lparr>find_ffmpeg_path = Some ''/usr/bin/ffmpeg'', test_ffmpeg = (True, ''ffmpeg version 6.0''),
      ffmpeg_run = outcome, ffmpeg_effect = effect,
      remove_raises = (\<lambda>p. False), copy_raises = False\<rparr>"

definition example_input :: mux_input where
  "example_input =
     \<lparr>audio_recorder = Some ''/tmp/_audio.wav'', video_tmp_path = Some ''rec_tmp_video.mp4'',
      output_path = ''rec.mp4''\<rparr>"

definition example_files :: "nat \<Rightarrow> nat \<Rightarrow> file_system" where
  "example_files audio_size video_size =
     [''/tmp/_audio.wav'' \<mapsto> audio_size, ''rec_tmp_video.mp4'' \<mapsto> video_size]"

section \<open>Properties of the capture queue and the writer\<close>

text \<open>
  Claim C2 does not hold of the code when the scan finds no frame to drop. In the
  session \<open>stalled_writer_events\<close> the queue ends up holding six key frames, all numbered 30 (the frame
  count does not advance while the queue overflows), captured at times 31 to 36. The
  next capture, at time 37, sets five of them aside, puts them back behind the sixth,
  and then fails to enqueue the new frame: the queue is full again, \<^verbatim>\<open>queue.Full\<close> is
  swallowed by the bare \<^verbatim>\<open>except\<close>, and the drop counter goes from 6 to 7. The oldest
  frame (time 31) is still queued, the new frame (time 37) is lost, and the order of
  the queue has changed.
\<close>

theorem overflow_without_droppable_frame_loses_new_frame:
  "frame_queue (run 3 stalled_writer_events initial_recorder) =
     map (key_frame 30) [31, 32, 33, 34, 35, 36] \<and>
   dropped_frames (run 3 stalled_writer_events initial_recorder) = 6 \<and>
   frame_queue (run 3 (stalled_writer_events @ [Capture 37]) initial_recorder) =
     map (key_frame 30) [36, 31, 32, 33, 34, 35] \<and>
   dropped_frames (run 3 (stalled_writer_events @ [Capture 37]) initial_recorder) = 7 \<and>
   frame_count (run 3 (stalled_writer_events @ [Capture 37]) initial_recorder) = 30"
  by code_simp

text \<open>
  Claim C3 does not hold of the code. With a buffer size of 2 (a frame queue of four)
  and five frames captured before the writer takes any, the fifth capture overflows:
  the scan sets key frame 0 aside, drops frame 1, and puts frame 0 back at the tail.
  The writer then writes the frames numbered 2, 3, 0, 4, in this order.
\<close>

theorem overflow_reorders_written_frames:
  "map frame_number (video_frames (session 2 (map Capture [1, 2, 3, 4, 5]))) = [2, 3, 0, 4]"
  by code_simp

text \<open>
  Claim C8 does not hold of the code. With a buffer size of 2 and seven frames
  captured before the writer takes any, the session ends with a frame count of 4, a
  drop count of 3 and 4 frames written: the overflow path enqueues the new frame
  without counting it. Produced minus dropped is 1, and 4 frames were written.
\<close>

theorem drop_accounting_off_by_three:
  "frame_count (session 2 (map Capture [1, 2, 3, 4, 5, 6, 7])) = 4 \<and>
   dropped_frames (session 2 (map Capture [1, 2, 3, 4, 5, 6, 7])) = 3 \<and>
   length (video_frames (session 2 (map Capture [1, 2, 3, 4, 5, 6, 7]))) = 4 \<and>
   frame_queue (session 2 (map Capture [1, 2, 3, 4, 5, 6, 7])) = []"
  by code_simp

section \<open>Properties of the merge\<close>







text \<open>
  Claim C1 does not hold of the code. The example recorder has a temporary video file
  of 8192 bytes and an audio file of 4096 bytes, and the merge tool is found and
  passes its test. Whether the merge command exits with code 1, times out or raises,
  the \<^verbatim>\<open>finally\<close> block of \<^verbatim>\<open>_mux_audio_video\<close> removes both files, so the fallback of
  \<^verbatim>\<open>_finalize_recording\<close> finds no audio file to save: afterwards neither raw file
  exists, nor the separate audio copy, nor the output, and the last status message
  says that the video was saved.
\<close>

theorem failed_merge_deletes_raw_artifacts:
  "map (fst (finalize_recording (example_env (Completed 1 ''Invalid data'') (\<lambda>fs. fs)) None
          example_input ''rec'' (example_files 4096 8192)))
     [''rec_tmp_video.mp4'', ''/tmp/_audio.wav'', ''rec_audio.wav'', ''rec.mp4'']
     = [None, None, None, None] \<and>
   snd (finalize_recording (example_env (Completed 1 ''Invalid data'') (\<lambda>fs. fs)) None
          example_input ''rec'' (example_files 4096 8192))
     = [Muxing 8 4, RunningFFmpeg, CleanedUp ''rec_tmp_video.mp4'',
        CleanedUp ''/tmp/_audio.wav'',
        VideoSavedAudioMergeFailed (FFmpegExecutionFailed (FFmpegFailed 1 ''Invalid data''))] \<and>
   map (fst (finalize_recording (example_env TimeoutExpired (\<lambda>fs. fs)) None
          example_input ''rec'' (example_files 4096 8192)))
     [''rec_tmp_video.mp4'', ''/tmp/_audio.wav'', ''rec_audio.wav'', ''rec.mp4'']
     = [None, None, None, None] \<and>
   map (fst (finalize_recording (example_env (OtherException ''OSError'') (\<lambda>fs. fs)) None
          example_input ''rec'' (example_files 4096 8192)))
     [''rec_tmp_video.mp4'', ''/tmp/_audio.wav'', ''rec_audio.wav'', ''rec.mp4'']
     = [None, None, None, None]"
  by (simp add: finalize_recording_def mux_audio_video_def run_ffmpeg_def example_env_def
        example_input_def example_files_def Let_def)

section \<open>Properties of the audio callback\<close>

text \<open>
  Claim C4, as the code has it: the callback returns normally on every queue and every
  block, and \<^verbatim>\<open>queue.Full\<close> never leaves it. On a full queue (64 blocks) the queue
  is left as it was, so it is the newly arrived block that is lost and the oldest
  block stays; otherwise the block is appended at the tail.
\<close>

theorem audio_callback_drops_new_block:
  "audio_callback q indata = Inr (if queue_full 64 q then q else q @ [indata])"
  by (simp add: audio_callback_def put_nowait_def)

text \<open>
  Claim C4 as stated fails: with the blocks 0 to 63 queued, the callback for block 64
  leaves the queue unchanged. Block 0, the oldest, is still at the head and block 64
  is not in the queue.
\<close>

theorem audio_callback_keeps_oldest_counterexample:
  "audio_callback [0..<64] 64 = Inr [0..<64] \<and> hd [0..<64] = 0 \<and> 64 \<notin> set [0..<64]"
  by (simp add: audio_callback_def put_nowait_def queue_full_def upt_rec [of 0 64])

section \<open>Properties of the adaptive control\<close>

text \<open>One observation, in arithmetic: the counter goes up by one or down by one.\<close>

lemma observe_counter:
  "frames_behind (observe b q c) =
     (if above b q then frames_behind c + 1 else max 0 (frames_behind c - 1))"
  by (simp add: observe_def above_def Let_def)

lemma observe_mode:
  "emergency_mode (observe b q c) =
     (if above b q then emergency_mode c \<or> 3 < frames_behind c + 1
      else emergency_mode c \<and> 1 < frames_behind c)"
  by (auto simp: observe_def above_def Let_def)

lemma monitor_update_eq:
  "monitor_update d c = c\<lparr>emergency_mode := emergency_mode c \<or> 10 < d\<rparr>"
  by (cases c) (simp add: monitor_update_def)

lemma control_run_Cons:
  "control_run b (e # es) c = control_run b es (control_step b e c)"
  by (simp add: control_run_def)

lemma control_step_counter_nonneg:
  "0 \<le> frames_behind c \<Longrightarrow> 0 \<le> frames_behind (control_step b e c)"
  by (cases e) (simp_all add: observe_counter monitor_update_eq)

text \<open>
  Over any sequence of events the counter is never reset: it loses at most one for
  each observation at or below the mark, and exactly one while it stays above zero.
\<close>

lemma counter_lower_bound:
  "0 \<le> frames_behind c \<Longrightarrow>
   frames_behind c + int (count_above b es) - int (count_below b es)
     \<le> frames_behind (control_run b es c)"
proof (induction es arbitrary: c)
  case Nil
  then show ?case by (simp add: control_run_def count_above_def count_below_def)
next
  case (Cons e es)
  from Cons.prems have "0 \<le> frames_behind (control_step b e c)"
    by (rule control_step_counter_nonneg)
  from Cons.IH [OF this] show ?case
    unfolding control_run_Cons
    by (cases e)
       (auto simp: observe_counter monitor_update_eq count_above_def count_below_def)
qed

lemma counter_exact:
  "int (count_below b es) \<le> frames_behind c \<Longrightarrow>
   frames_behind (control_run b es c)
     = frames_behind c + int (count_above b es) - int (count_below b es)"
proof (induction es arbitrary: c)
  case Nil
  then show ?case by (simp add: control_run_def count_above_def count_below_def)
next
  case (Cons e es)
  from Cons.prems have "int (count_below b es) \<le> frames_behind (control_step b e c)"
    by (cases e)
       (auto simp: observe_counter monitor_update_eq count_below_def)
  from Cons.IH [OF this] Cons.prems show ?case
    unfolding control_run_Cons
    by (cases e)
       (auto simp: observe_counter monitor_update_eq count_above_def count_below_def)
qed

text \<open>Runs of observations on one side of the mark, with a monitor that changes nothing.\<close>

lemma run_above:
  "count_below b es = 0 \<Longrightarrow> monitor_quiet es \<Longrightarrow>
   emergency_mode (control_run b es c) =
     (emergency_mode c \<or> (count_above b es \<noteq> 0 \<and> 3 < frames_behind c + int (count_above b es)))"
proof (induction es arbitrary: c)
  case Nil
  then show ?case by (simp add: control_run_def count_above_def)
next
  case (Cons e es)
  from Cons.prems have rest: "count_below b es = 0" "monitor_quiet es"
    by (auto simp: count_below_def monitor_quiet_def split: if_splits)
  from Cons.IH [OF rest, of "control_step b e c"] Cons.prems show ?case
    unfolding control_run_Cons
    by (cases e)
       (auto simp: observe_counter observe_mode monitor_update_eq count_above_def
          count_below_def monitor_quiet_def split: if_splits)
qed

lemma run_below:
  "count_above b es = 0 \<Longrightarrow> monitor_quiet es \<Longrightarrow> 0 \<le> frames_behind c \<Longrightarrow>
   emergency_mode (control_run b es c) =
     (emergency_mode c \<and> (count_below b es = 0 \<or> int (count_below b es) < frames_behind c))"
proof (induction es arbitrary: c)
  case Nil
  then show ?case by (simp add: control_run_def count_below_def)
next
  case (Cons e es)
  from Cons.prems have rest: "count_above b es = 0" "monitor_quiet es"
    by (auto simp: count_above_def monitor_quiet_def split: if_splits)
  from Cons.prems have nonneg: "0 \<le> frames_behind (control_step b e c)"
    by (simp add: control_step_counter_nonneg)
  from Cons.IH [OF rest nonneg] Cons.prems show ?case
    unfolding control_run_Cons
    by (cases e)
       (auto simp: observe_counter observe_mode monitor_update_eq count_above_def
          count_below_def monitor_quiet_def split: if_splits)
qed

text \<open>
  Every state reached from the initial one has a counter that is not negative, and of
  at most three in the normal mode.
\<close>

lemma controller_ok_initial: "controller_ok (controller initial_recorder)"
  by (simp add: controller_ok_def initial_recorder_def)

lemma control_step_ok: "controller_ok c \<Longrightarrow> controller_ok (control_step b e c)"
  by (cases e) (auto simp: controller_ok_def observe_counter observe_mode monitor_update_eq)

lemma control_run_ok: "controller_ok c \<Longrightarrow> controller_ok (control_run b es c)"
  by (induction es arbitrary: c) (simp_all add: control_run_def control_step_ok)

text \<open>
  Claim C5, as the code has it. The control is an up/down counter with a flag that two
  threads write; it does not count consecutive observations. An observation above the
  mark adds one to the counter and sets the degraded mode once the counter exceeds
  three; any other observation takes one off (not below zero) and sets the normal mode
  once the counter is zero. A statistics update of the monitor loop that reads more
  than ten dropped frames sets the degraded mode and leaves the counter alone. The
  counter is never reset: after any sequence of events from a counter \<open>n \<ge> 0\<close> it is
  at least \<open>n\<close> plus the observations above the mark minus the others, and exactly
  that when \<open>n\<close> is at least the number of the others. While the monitor reads at
  most ten dropped frames: from the normal mode with a counter \<open>n \<le> 3\<close>, a run of
  \<open>m\<close> observations above the mark ends in the degraded mode exactly when
  \<open>n + m > 3\<close>; from the degraded mode with a counter \<open>n \<ge> 1\<close>, a run of \<open>m\<close>
  observations at or below the mark ends in the normal mode exactly when \<open>m \<ge> n\<close>.
\<close>

theorem control_is_up_down_counter:
  "frames_behind (control_step b (Observation q) c) =
     (if above b q then frames_behind c + 1 else max 0 (frames_behind c - 1)) \<and>
   emergency_mode (control_step b (Observation q) c) =
     (if above b q then emergency_mode c \<or> 3 < frames_behind c + 1
      else emergency_mode c \<and> 1 < frames_behind c) \<and>
   control_step b (MonitorTick d) c = c\<lparr>emergency_mode := emergency_mode c \<or> 10 < d\<rparr> \<and>
   (0 \<le> frames_behind c \<longrightarrow>
      frames_behind c + int (count_above b es) - int (count_below b es)
        \<le> frames_behind (control_run b es c)) \<and>
   (int (count_below b es) \<le> frames_behind c \<longrightarrow>
      frames_behind (control_run b es c)
        = frames_behind c + int (count_above b es) - int (count_below b es)) \<and>
   (\<not> emergency_mode c \<and> frames_behind c \<le> 3 \<and> count_below b es = 0 \<and> monitor_quiet es \<longrightarrow>
      (emergency_mode (control_run b es c) \<longleftrightarrow> 3 < frames_behind c + int (count_above b es))) \<and>
   (emergency_mode c \<and> 1 \<le> frames_behind c \<and> count_above b es = 0 \<and> monitor_quiet es \<longrightarrow>
      (emergency_mode (control_run b es c) \<longleftrightarrow> int (count_below b es) < frames_behind c))"
proof (intro conjI impI)
  show "frames_behind (control_step b (Observation q) c) =
          (if above b q then frames_behind c + 1 else max 0 (frames_behind c - 1))"
    by (simp add: observe_counter)
next
  show "emergency_mode (control_step b (Observation q) c) =
          (if above b q then emergency_mode c \<or> 3 < frames_behind c + 1
           else emergency_mode c \<and> 1 < frames_behind c)"
    by (simp add: observe_mode)
next
  show "control_step b (MonitorTick d) c = c\<lparr>emergency_mode := emergency_mode c \<or> 10 < d\<rparr>"
    by (simp add: monitor_update_eq)
next
  assume "0 \<le> frames_behind c"
  then show "frames_behind c + int (count_above b es) - int (count_below b es)
               \<le> frames_behind (control_run b es c)"
    by (rule counter_lower_bound)
next
  assume "int (count_below b es) \<le> frames_behind c"
  then show "frames_behind (control_run b es c)
               = frames_behind c + int (count_above b es) - int (count_below b es)"
    by (rule counter_exact)
next
  assume "\<not> emergency_mode c \<and> frames_behind c \<le> 3 \<and> count_below b es = 0 \<and> monitor_quiet es"
  then show "emergency_mode (control_run b es c) \<longleftrightarrow> 3 < frames_behind c + int (count_above b es)"
    using run_above [of b es c] by auto
next
  assume "emergency_mode c \<and> 1 \<le> frames_behind c \<and> count_above b es = 0 \<and> monitor_quiet es"
  then show "emergency_mode (control_run b es c) \<longleftrightarrow> int (count_below b es) < frames_behind c"
    using run_below [of b es c] by auto
qed

text \<open>
  The theorem at a buffer size of 4 (a queue size of 4 is above the mark, 3 and less are
  not). After five observations above the mark and one below, a fresh counter is at
  least four. A counter of six is five after two observations below and one above.
  With the monitor reading three dropped frames, four observations above the mark
  degrade a fresh control and three do not; a counter of six needs six observations
  below the mark, and five leave the mode degraded.
\<close>

theorem control_is_up_down_counter_witness:
  "4 \<le> frames_behind (control_run 4
      [Observation 4, Observation 4, Observation 4, Observation 3, Observation 4, Observation 4]
      \<lparr>frames_behind = 0, emergency_mode = False\<rparr>) \<and>
   frames_behind (control_run 4
      [Observation 3, Observation 4, MonitorTick 20, Observation 2]
      \<lparr>frames_behind = 6, emergency_mode = True\<rparr>) = 5 \<and>
   emergency_mode (control_run 4
      [Observation 4, MonitorTick 3, Observation 4, Observation 4, Observation 4]
      \<lparr>frames_behind = 0, emergency_mode = False\<rparr>) \<and>
   \<not> emergency_mode (control_run 4
      [Observation 4, MonitorTick 3, Observation 4, Observation 4]
      \<lparr>frames_behind = 0, emergency_mode = False\<rparr>) \<and>
   emergency_mode (control_run 4
      [Observation 0, Observation 0, MonitorTick 3, Observation 0, Observation 0, Observation 0]
      \<lparr>frames_behind = 6, emergency_mode = True\<rparr>) \<and>
   \<not> emergency_mode (control_run 4
      [Observation 0, Observation 0, MonitorTick 3, Observation 0, Observation 0, Observation 0,
       Observation 0]
      \<lparr>frames_behind = 6, emergency_mode = True\<rparr>)"
  using
    control_is_up_down_counter [of 4 _ "\<lparr>frames_behind = 0, emergency_mode = False\<rparr>" _
      "[Observation 4, Observation 4, Observation 4, Observation 3, Observation 4, Observation 4]"]
    control_is_up_down_counter [of 4 _ "\<lparr>frames_behind = 6, emergency_mode = True\<rparr>" _
      "[Observation 3, Observation 4, MonitorTick 20, Observation 2]"]
    control_is_up_down_counter [of 4 _ "\<lparr>frames_behind = 0, emergency_mode = False\<rparr>" _
      "[Observation 4, MonitorTick 3, Observation 4, Observation 4, Observation 4]"]
    control_is_up_down_counter [of 4 _ "\<lparr>frames_behind = 0, emergency_mode = False\<rparr>" _
      "[Observation 4, MonitorTick 3, Observation 4, Observation 4]"]
    control_is_up_down_counter [of 4 _ "\<lparr>frames_behind = 6, emergency_mode = True\<rparr>" _
      "[Observation 0, Observation 0, MonitorTick 3, Observation 0, Observation 0, Observation 0]"]
    control_is_up_down_counter [of 4 _ "\<lparr>frames_behind = 6, emergency_mode = True\<rparr>" _
      "[Observation 0, Observation 0, MonitorTick 3, Observation 0, Observation 0, Observation 0,
        Observation 0]"]
  by (simp add: count_above_def count_below_def monitor_quiet_def above_def)

text \<open>
  Claim C5 as stated fails, at a buffer size of 4. A fresh control stays normal on
  three observations above the mark and degrades on the fourth, so the claim's \<open>k\<close>
  is four. Yet after three observations above the mark and one below, the mode is
  still normal after one more observation above and degraded after the second: a
  transition on a run of two. After six observations above the mark, four consecutive
  observations below it leave the mode degraded. And a statistics update that reads
  eleven dropped frames degrades a fresh control without any observation, after which
  a single observation below the mark restores the normal mode.
\<close>

theorem hysteresis_counterexample:
  "\<not> emergency_mode (control_run 4 [Observation 4, Observation 4, Observation 4]
       (controller initial_recorder)) \<and>
   emergency_mode (control_run 4 [Observation 4, Observation 4, Observation 4, Observation 4]
       (controller initial_recorder)) \<and>
   \<not> emergency_mode (control_run 4
       [Observation 4, Observation 4, Observation 4, Observation 3, Observation 4]
       (controller initial_recorder)) \<and>
   emergency_mode (control_run 4
       [Observation 4, Observation 4, Observation 4, Observation 3, Observation 4, Observation 4]
       (controller initial_recorder)) \<and>
   emergency_mode (control_run 4
       [Observation 4, Observation 4, Observation 4, Observation 4, Observation 4, Observation 4,
        Observation 3, Observation 2, Observation 1, Observation 0]
       (controller initial_recorder)) \<and>
   emergency_mode (control_run 4 [MonitorTick 11] (controller initial_recorder)) \<and>
   \<not> emergency_mode (control_run 4 [MonitorTick 11, Observation 3]
       (controller initial_recorder))"
  by (simp add: control_run_def observe_def monitor_update_def initial_recorder_def Let_def)

section \<open>Properties of status reporting\<close>

text \<open>
  Claim C9, as the code has it: whatever the callback does, no instance of
  \<^verbatim>\<open>Exception\<close> leaves \<^verbatim>\<open>_emit_status\<close>. The emission returns normally when the callback
  returns and when it raises an instance of \<^verbatim>\<open>Exception\<close>. An exception outside that
  class (\<^verbatim>\<open>KeyboardInterrupt\<close>, \<^verbatim>\<open>SystemExit\<close>, \<^verbatim>\<open>GeneratorExit\<close>) that the callback
  raises is not caught and reaches the caller unchanged.
\<close>

theorem emit_status_catches_exceptions_only:
  "emit_status status_callback msg \<noteq> Inl (ExceptionClass e) \<and>
   emit_status (status_callback(msg := Inr ())) msg = Inr () \<and>
   emit_status (status_callback(msg := Inl (ExceptionClass e))) msg = Inr () \<and>
   emit_status (status_callback(msg := Inl (BaseExceptionOnly e))) msg =
     Inl (BaseExceptionOnly e)"
  by (simp add: emit_status_def split: sum.splits raised.splits)

text \<open>
  Claim C9 as stated fails: when the callback raises \<^verbatim>\<open>KeyboardInterrupt\<close>, so does
  the emission.
\<close>

theorem emit_status_interrupt_counterexample:
  "emit_status interrupted_callback ''Recording saved'' =
     Inl (BaseExceptionOnly ''KeyboardInterrupt'')"
  by (simp add: emit_status_def interrupted_callback_def)

section \<open>Properties of the camera probe\<close>












end
